theory Spec2Isabelle
  imports Main
begin

section \<open>Exceptions, buffers and results\<close>

text \<open>
  The C++ exceptions thrown by the sources. Each carries its message; the messages are
  kept as in the source apart from the escaped quote characters around the names.
  \<open>cannot_allocate\<close> is built from \<open>__FILE__\<close>, \<open>__LINE__\<close> and \<open>__func__\<close>; only
  the function name is kept.
\<close>

datatype error =
    invalid_argument string
  | length_error string
  | runtime_error string
  | cannot_allocate string

text \<open>
  A \<open>mipp::vector<T>\<close> is a list. A raw pointer \<open>v.data() + k\<close> handed to a single-frame
  kernel is the buffer together with the element offset \<open>k\<close>.

  Every transform is a member function writing into an output buffer passed by
  reference, and may change the members of the concrete module. The mutable part of a
  call is therefore the pair of the module state \<open>'s\<close> and the output buffer. A call
  either returns normally with that pair (\<open>Inr\<close>) or throws (\<open>Inl\<close>), in which case the
  pair is what the call left behind when the exception escaped. Input buffers are
  \<open>const\<close> references and are taken to be distinct objects from the output buffer.

  The C++ type \<open>int\<close> has 32 bits. Members, loop counters and offsets of type \<open>int\<close> are
  mathematical integers; where the source computes a product in \<open>int\<close> or narrows a
  \<open>size_t\<close> by the cast \<open>(int)\<close> and compares the results, the model takes the value that
  the 32-bit computation yields: \<open>int32 x\<close> is the value of type \<open>int\<close> congruent to \<open>x\<close>
  modulo \<open>2 ^ 32\<close>. The integers that the type holds are the \<open>representable\<close> ones, and
  on them \<open>int32\<close> changes nothing.
\<close>

type_synonym 'a ptr = "'a list \<times> int"

type_synonym ('s, 'a) result = "(error \<times> 's \<times> 'a list) + 's \<times> 'a list"

definition int32 :: "int \<Rightarrow> int" where
  "int32 x = (x + 2 ^ 31) mod 2 ^ 32 - 2 ^ 31"


section \<open>The Modulator interface\<close>

text \<open>
  \<open>Module\<close> is the base class of \<open>Modulator_i\<close>; of its members the sources use the batch
  width \<open>n_frames\<close> and pass it a name.
\<close>

record Module =
  n_frames :: int
  name :: string

record Modulator_i = Module +
  N :: int
  N_mod :: int
  N_fil :: int

text \<open>
  The virtual member functions. A leading underscore is not an Isabelle name:
  the virtual slot of \<open>_modulate_fbf\<close> is the field \<open>v_modulate_fbf\<close>, and the body that
  \<open>Modulator_i\<close> itself gives to it is \<open>p_modulate_fbf\<close>; likewise for the others. The
  overloads that take the extrinsic information of a decoder carry the suffix \<open>_ext\<close>.
  The first record holds the single-frame kernels, the second the batch functions
  that the public entry points call.
\<close>

record ('s, 'b, 'r, 'q) kernels =
  v_modulate_fbf :: "'s \<Rightarrow> 'b ptr \<Rightarrow> 'r ptr \<Rightarrow> ('s, 'r) result"
  v_filter_fbf :: "'s \<Rightarrow> 'r ptr \<Rightarrow> 'r ptr \<Rightarrow> ('s, 'r) result"
  v_demodulate_fbf :: "'s \<Rightarrow> 'q ptr \<Rightarrow> 'q ptr \<Rightarrow> ('s, 'q) result"
  v_demodulate_with_gains_fbf :: "'s \<Rightarrow> 'q ptr \<Rightarrow> 'r ptr \<Rightarrow> 'q ptr \<Rightarrow> ('s, 'q) result"
  v_demodulate_fbf_ext :: "'s \<Rightarrow> 'q ptr \<Rightarrow> 'q ptr \<Rightarrow> 'q ptr \<Rightarrow> ('s, 'q) result"
  v_demodulate_with_gains_fbf_ext ::
    "'s \<Rightarrow> 'q ptr \<Rightarrow> 'r ptr \<Rightarrow> 'q ptr \<Rightarrow> 'q ptr \<Rightarrow> ('s, 'q) result"

record ('s, 'b, 'r, 'q) methods =
  v_modulate :: "Modulator_i \<Rightarrow> 's \<Rightarrow> 'b list \<Rightarrow> 'r list \<Rightarrow> ('s, 'r) result"
  v_filter :: "Modulator_i \<Rightarrow> 's \<Rightarrow> 'r list \<Rightarrow> 'r list \<Rightarrow> ('s, 'r) result"
  v_demodulate :: "Modulator_i \<Rightarrow> 's \<Rightarrow> 'q list \<Rightarrow> 'q list \<Rightarrow> ('s, 'q) result"
  v_demodulate_with_gains ::
    "Modulator_i \<Rightarrow> 's \<Rightarrow> 'q list \<Rightarrow> 'r list \<Rightarrow> 'q list \<Rightarrow> ('s, 'q) result"
  v_demodulate_ext ::
    "Modulator_i \<Rightarrow> 's \<Rightarrow> 'q list \<Rightarrow> 'q list \<Rightarrow> 'q list \<Rightarrow> ('s, 'q) result"
  v_demodulate_with_gains_ext ::
    "Modulator_i \<Rightarrow> 's \<Rightarrow> 'q list \<Rightarrow> 'r list \<Rightarrow> 'q list \<Rightarrow> 'q list \<Rightarrow> ('s, 'q) result"

subsection \<open>Single-frame kernels of the base class\<close>

definition p_modulate_fbf :: "'s \<Rightarrow> 'b ptr \<Rightarrow> 'r ptr \<Rightarrow> ('s, 'r) result" where
  "p_modulate_fbf s X_N1 X_N2 =
     Inl (runtime_error ''aff3ct::module::Modulator: _modulate_fbf is unimplemented.'',
          s, fst X_N2)"

definition p_filter_fbf :: "'s \<Rightarrow> 'r ptr \<Rightarrow> 'r ptr \<Rightarrow> ('s, 'r) result" where
  "p_filter_fbf s Y_N1 Y_N2 =
     Inl (runtime_error ''aff3ct::module::Modulator: _filter_fbf is unimplemented.'',
          s, fst Y_N2)"

definition p_demodulate_fbf :: "'s \<Rightarrow> 'q ptr \<Rightarrow> 'q ptr \<Rightarrow> ('s, 'q) result" where
  "p_demodulate_fbf s Y_N1 Y_N2 =
     Inl (runtime_error ''aff3ct::module::Modulator: _demodulate_fbf is unimplemented.'',
          s, fst Y_N2)"

definition p_demodulate_with_gains_fbf ::
  "'s \<Rightarrow> 'q ptr \<Rightarrow> 'r ptr \<Rightarrow> 'q ptr \<Rightarrow> ('s, 'q) result" where
  "p_demodulate_with_gains_fbf s Y_N1 H_N Y_N2 =
     Inl (runtime_error
            ''aff3ct::module::Modulator: _demodulate_with_gains_fbf is unimplemented.'',
          s, fst Y_N2)"

definition p_demodulate_fbf_ext ::
  "'s \<Rightarrow> 'q ptr \<Rightarrow> 'q ptr \<Rightarrow> 'q ptr \<Rightarrow> ('s, 'q) result" where
  "p_demodulate_fbf_ext s Y_N1 Y_N2 Y_N3 =
     Inl (runtime_error ''aff3ct::module::Modulator: _demodulate_fbf is unimplemented.'',
          s, fst Y_N3)"

definition p_demodulate_with_gains_fbf_ext ::
  "'s \<Rightarrow> 'q ptr \<Rightarrow> 'r ptr \<Rightarrow> 'q ptr \<Rightarrow> 'q ptr \<Rightarrow> ('s, 'q) result" where
  "p_demodulate_with_gains_fbf_ext s Y_N1 H_N Y_N2 Y_N3 =
     Inl (runtime_error
            ''aff3ct::module::Modulator: _demodulate_with_gains_fbf is unimplemented.'',
          s, fst Y_N3)"

text \<open>The kernels of a module that overrides none of them.\<close>

definition Modulator_i_kernels :: "('s, 'b, 'r, 'q) kernels" where
  "Modulator_i_kernels =
     \<lparr> v_modulate_fbf = p_modulate_fbf,
       v_filter_fbf = p_filter_fbf,
       v_demodulate_fbf = p_demodulate_fbf,
       v_demodulate_with_gains_fbf = p_demodulate_with_gains_fbf,
       v_demodulate_fbf_ext = p_demodulate_fbf_ext,
       v_demodulate_with_gains_fbf_ext = p_demodulate_with_gains_fbf_ext \<rparr>"

subsection \<open>Batch functions of the base class\<close>

text \<open>
  The loop \<open>for (auto f = 0; f < this->n_frames; f++) body\<close>, started at frame \<open>f\<close>.
  An exception thrown by the body leaves the loop with the state that the body left.
\<close>

function for_frames ::
  "int \<Rightarrow> int \<Rightarrow> (int \<Rightarrow> 'a \<Rightarrow> (error \<times> 'a) + 'a) \<Rightarrow> 'a \<Rightarrow> (error \<times> 'a) + 'a" where
  "for_frames f n body \<sigma> =
     (if f < n
      then (case body f \<sigma> of
              Inl e \<Rightarrow> Inl e
            | Inr \<sigma>' \<Rightarrow> for_frames (f + 1) n body \<sigma>')
      else Inr \<sigma>)"
  by pat_completeness auto
termination
  by (relation "measure (\<lambda>(f, n, body, \<sigma>). nat (n - f))") auto

declare for_frames.simps [simp del]

definition p_modulate ::
  "('s, 'b, 'r, 'q) kernels \<Rightarrow> Modulator_i \<Rightarrow> 's \<Rightarrow> 'b list \<Rightarrow> 'r list \<Rightarrow> ('s, 'r) result" where
  "p_modulate k this s X_N1 X_N2 =
     for_frames 0 (n_frames this)
       (\<lambda>f (s, X_N2). v_modulate_fbf k s (X_N1, f * N this) (X_N2, f * N_mod this))
       (s, X_N2)"

definition p_filter ::
  "('s, 'b, 'r, 'q) kernels \<Rightarrow> Modulator_i \<Rightarrow> 's \<Rightarrow> 'r list \<Rightarrow> 'r list \<Rightarrow> ('s, 'r) result" where
  "p_filter k this s Y_N1 Y_N2 =
     (if length Y_N1 = length Y_N2
      then Inr (s, Y_N1)
      else for_frames 0 (n_frames this)
             (\<lambda>f (s, Y_N2). v_filter_fbf k s (Y_N1, f * N_mod this) (Y_N2, f * N_fil this))
             (s, Y_N2))"

definition p_demodulate ::
  "('s, 'b, 'r, 'q) kernels \<Rightarrow> Modulator_i \<Rightarrow> 's \<Rightarrow> 'q list \<Rightarrow> 'q list \<Rightarrow> ('s, 'q) result" where
  "p_demodulate k this s Y_N1 Y_N2 =
     for_frames 0 (n_frames this)
       (\<lambda>f (s, Y_N2). v_demodulate_fbf k s (Y_N1, f * N_fil this) (Y_N2, f * N this))
       (s, Y_N2)"

definition p_demodulate_with_gains ::
  "('s, 'b, 'r, 'q) kernels \<Rightarrow> Modulator_i \<Rightarrow> 's \<Rightarrow> 'q list \<Rightarrow> 'r list \<Rightarrow> 'q list
     \<Rightarrow> ('s, 'q) result" where
  "p_demodulate_with_gains k this s Y_N1 H_N Y_N2 =
     for_frames 0 (n_frames this)
       (\<lambda>f (s, Y_N2). v_demodulate_with_gains_fbf k s
                         (Y_N1, f * N_fil this) (H_N, f * N_fil this) (Y_N2, f * N this))
       (s, Y_N2)"

definition p_demodulate_ext ::
  "('s, 'b, 'r, 'q) kernels \<Rightarrow> Modulator_i \<Rightarrow> 's \<Rightarrow> 'q list \<Rightarrow> 'q list \<Rightarrow> 'q list
     \<Rightarrow> ('s, 'q) result" where
  "p_demodulate_ext k this s Y_N1 Y_N2 Y_N3 =
     for_frames 0 (n_frames this)
       (\<lambda>f (s, Y_N3). v_demodulate_fbf_ext k s
                         (Y_N1, f * N_fil this) (Y_N2, f * N this) (Y_N3, f * N this))
       (s, Y_N3)"

definition p_demodulate_with_gains_ext ::
  "('s, 'b, 'r, 'q) kernels \<Rightarrow> Modulator_i \<Rightarrow> 's \<Rightarrow> 'q list \<Rightarrow> 'r list \<Rightarrow> 'q list \<Rightarrow> 'q list
     \<Rightarrow> ('s, 'q) result" where
  "p_demodulate_with_gains_ext k this s Y_N1 H_N Y_N2 Y_N3 =
     for_frames 0 (n_frames this)
       (\<lambda>f (s, Y_N3). v_demodulate_with_gains_fbf_ext k s
                         (Y_N1, f * N_fil this) (H_N, f * N_fil this)
                         (Y_N2, f * N this) (Y_N3, f * N this))
       (s, Y_N3)"

text \<open>The batch functions of a module that overrides the kernels \<open>k\<close> only.\<close>

definition Modulator_i_methods :: "('s, 'b, 'r, 'q) kernels \<Rightarrow> ('s, 'b, 'r, 'q) methods" where
  "Modulator_i_methods k =
     \<lparr> v_modulate = p_modulate k,
       v_filter = p_filter k,
       v_demodulate = p_demodulate k,
       v_demodulate_with_gains = p_demodulate_with_gains k,
       v_demodulate_ext = p_demodulate_ext k,
       v_demodulate_with_gains_ext = p_demodulate_with_gains_ext k \<rparr>"

subsection \<open>Public entry points\<close>

text \<open>
  Each entry point compares the size of every argument buffer with the declared size,
  one buffer after the other, and then calls the virtual batch function. A comparison
  \<open>this->N * this->n_frames != (int)X_N1.size()\<close> is one of two values of type \<open>int\<close>: the
  product computed in \<open>int\<close> and the size narrowed to \<open>int\<close>.
\<close>

definition modulate ::
  "('s, 'b, 'r, 'q) methods \<Rightarrow> Modulator_i \<Rightarrow> 's \<Rightarrow> 'b list \<Rightarrow> 'r list \<Rightarrow> ('s, 'r) result" where
  "modulate vt this s X_N1 X_N2 =
     (if int32 (N this * n_frames this) \<noteq> int32 (int (length X_N1))
      then Inl (length_error
                  ''aff3ct::module::Modulator: X_N1.size() has to be equal to N * n_frames.'',
                s, X_N2)
      else if int32 (N_mod this * n_frames this) \<noteq> int32 (int (length X_N2))
      then Inl (length_error
                  ''aff3ct::module::Modulator: X_N2.size() has to be equal to N_mod * n_frames.'',
                s, X_N2)
      else v_modulate vt this s X_N1 X_N2)"

definition filter_mod ::
  "('s, 'b, 'r, 'q) methods \<Rightarrow> Modulator_i \<Rightarrow> 's \<Rightarrow> 'r list \<Rightarrow> 'r list \<Rightarrow> ('s, 'r) result" where
  "filter_mod vt this s Y_N1 Y_N2 =
     (if int32 (N_mod this * n_frames this) \<noteq> int32 (int (length Y_N1))
      then Inl (length_error
                  ''aff3ct::module::Modulator: Y_N1.size() has to be equal to N_mod * n_frames.'',
                s, Y_N2)
      else if int32 (N_fil this * n_frames this) \<noteq> int32 (int (length Y_N2))
      then Inl (length_error
                  ''aff3ct::module::Modulator: Y_N2.size() has to be equal to N_fil * n_frames.'',
                s, Y_N2)
      else v_filter vt this s Y_N1 Y_N2)"

definition demodulate ::
  "('s, 'b, 'r, 'q) methods \<Rightarrow> Modulator_i \<Rightarrow> 's \<Rightarrow> 'q list \<Rightarrow> 'q list \<Rightarrow> ('s, 'q) result" where
  "demodulate vt this s Y_N1 Y_N2 =
     (if int32 (N_fil this * n_frames this) \<noteq> int32 (int (length Y_N1))
      then Inl (length_error
                  ''aff3ct::module::Modulator: Y_N1.size() has to be equal to N_fil * n_frames.'',
                s, Y_N2)
      else if int32 (N this * n_frames this) \<noteq> int32 (int (length Y_N2))
      then Inl (length_error
                  ''aff3ct::module::Modulator: Y_N2.size() has to be equal to N * n_frames.'',
                s, Y_N2)
      else v_demodulate vt this s Y_N1 Y_N2)"

definition demodulate_with_gains ::
  "('s, 'b, 'r, 'q) methods \<Rightarrow> Modulator_i \<Rightarrow> 's \<Rightarrow> 'q list \<Rightarrow> 'r list \<Rightarrow> 'q list
     \<Rightarrow> ('s, 'q) result" where
  "demodulate_with_gains vt this s Y_N1 H_N Y_N2 =
     (if int32 (N_fil this * n_frames this) \<noteq> int32 (int (length Y_N1))
      then Inl (length_error
                  ''aff3ct::module::Modulator: Y_N1.size() has to be equal to N_fil * n_frames.'',
                s, Y_N2)
      else if int32 (N_fil this * n_frames this) \<noteq> int32 (int (length H_N))
      then Inl (length_error
                  ''aff3ct::module::Modulator: H_N.size() has to be equal to N_fil * n_frames.'',
                s, Y_N2)
      else if int32 (N this * n_frames this) \<noteq> int32 (int (length Y_N2))
      then Inl (length_error
                  ''aff3ct::module::Modulator: Y_N2.size() has to be equal to N * n_frames.'',
                s, Y_N2)
      else v_demodulate_with_gains vt this s Y_N1 H_N Y_N2)"

definition demodulate_ext ::
  "('s, 'b, 'r, 'q) methods \<Rightarrow> Modulator_i \<Rightarrow> 's \<Rightarrow> 'q list \<Rightarrow> 'q list \<Rightarrow> 'q list
     \<Rightarrow> ('s, 'q) result" where
  "demodulate_ext vt this s Y_N1 Y_N2 Y_N3 =
     (if int32 (N_fil this * n_frames this) \<noteq> int32 (int (length Y_N1))
      then Inl (length_error
                  ''aff3ct::module::Modulator: Y_N1.size() has to be equal to N_fil * n_frames.'',
                s, Y_N3)
      else if int32 (N this * n_frames this) \<noteq> int32 (int (length Y_N2))
      then Inl (length_error
                  ''aff3ct::module::Modulator: Y_N2.size() has to be equal to N * n_frames.'',
                s, Y_N3)
      else if int32 (N this * n_frames this) \<noteq> int32 (int (length Y_N3))
      then Inl (length_error
                  ''aff3ct::module::Modulator: Y_N3.size() has to be equal to N * n_frames.'',
                s, Y_N3)
      else v_demodulate_ext vt this s Y_N1 Y_N2 Y_N3)"

definition demodulate_with_gains_ext ::
  "('s, 'b, 'r, 'q) methods \<Rightarrow> Modulator_i \<Rightarrow> 's \<Rightarrow> 'q list \<Rightarrow> 'r list \<Rightarrow> 'q list \<Rightarrow> 'q list
     \<Rightarrow> ('s, 'q) result" where
  "demodulate_with_gains_ext vt this s Y_N1 H_N Y_N2 Y_N3 =
     (if int32 (N_fil this * n_frames this) \<noteq> int32 (int (length Y_N1))
      then Inl (length_error
                  ''aff3ct::module::Modulator: Y_N1.size() has to be equal to N_fil * n_frames.'',
                s, Y_N3)
      else if int32 (N_fil this * n_frames this) \<noteq> int32 (int (length H_N))
      then Inl (length_error
                  ''aff3ct::module::Modulator: H_N.size() has to be equal to N_fil * n_frames.'',
                s, Y_N3)
      else if int32 (N this * n_frames this) \<noteq> int32 (int (length Y_N2))
      then Inl (length_error
                  ''aff3ct::module::Modulator: Y_N2.size() has to be equal to N * n_frames.'',
                s, Y_N3)
      else if int32 (N this * n_frames this) \<noteq> int32 (int (length Y_N3))
      then Inl (length_error
                  ''aff3ct::module::Modulator: Y_N3.size() has to be equal to N * n_frames.'',
                s, Y_N3)
      else v_demodulate_with_gains_ext vt this s Y_N1 H_N Y_N2 Y_N3)"

subsection \<open>Derived buffer sizes and constructors\<close>

text \<open>
  \<open>get_buffer_size_after_filtering\<close> calls the virtual \<open>get_buffer_size_after_modulation\<close>;
  its first argument is the function that this call is bound to.
\<close>

definition get_buffer_size_after_modulation :: "int \<Rightarrow> int" where
  "get_buffer_size_after_modulation n = n"

definition get_buffer_size_after_filtering :: "(int \<Rightarrow> int) \<Rightarrow> int \<Rightarrow> int" where
  "get_buffer_size_after_filtering after_modulation n = after_modulation n"

text \<open>
  The three constructors, named by the number of sizes they take. The constructor of
  the base class \<open>Module\<close> runs first; it is not part of the sources and is the
  parameter \<open>Module_init\<close>: when it throws, so does the constructor. While a constructor
  of \<open>Modulator_i\<close> runs, a virtual call is bound to the function of \<open>Modulator_i\<close>.
\<close>

definition Modulator_i_3 ::
  "(int \<Rightarrow> string \<Rightarrow> error + Module) \<Rightarrow> int \<Rightarrow> int \<Rightarrow> int \<Rightarrow> int \<Rightarrow> string
     \<Rightarrow> error + Modulator_i" where
  "Modulator_i_3 Module_init n n_mod n_fil nf nm =
     (case Module_init nf nm of
        Inl e \<Rightarrow> Inl e
      | Inr b \<Rightarrow>
          if n \<le> 0
          then Inl (invalid_argument
                      ''aff3ct::module::Modulator: N has to be greater than 0.'')
          else Inr \<lparr> n_frames = n_frames b, name = name b,
                     N = n, N_mod = n_mod, N_fil = n_fil \<rparr>)"

definition Modulator_i_2 ::
  "(int \<Rightarrow> string \<Rightarrow> error + Module) \<Rightarrow> int \<Rightarrow> int \<Rightarrow> int \<Rightarrow> string \<Rightarrow> error + Modulator_i" where
  "Modulator_i_2 Module_init n n_mod nf nm =
     (case Module_init nf nm of
        Inl e \<Rightarrow> Inl e
      | Inr b \<Rightarrow>
          Inr \<lparr> n_frames = n_frames b, name = name b,
                N = n, N_mod = n_mod,
                N_fil = get_buffer_size_after_filtering get_buffer_size_after_modulation n_mod \<rparr>)"

definition Modulator_i_1 ::
  "(int \<Rightarrow> string \<Rightarrow> error + Module) \<Rightarrow> int \<Rightarrow> int \<Rightarrow> string \<Rightarrow> error + Modulator_i" where
  "Modulator_i_1 Module_init n nf nm =
     (case Module_init nf nm of
        Inl e \<Rightarrow> Inl e
      | Inr b \<Rightarrow>
          Inr \<lparr> n_frames = n_frames b, name = name b,
                N = n, N_mod = get_buffer_size_after_modulation n,
                N_fil = get_buffer_size_after_filtering get_buffer_size_after_modulation n \<rparr>)"

section \<open>The Terminal factory\<close>

text \<open>
  The parameters that \<open>store\<close> fills in, and the terminals that \<open>build\<close> can allocate. The
  reporters are handed on to the terminal unchanged.
\<close>

record Terminal_parameters =
  type :: string
  disabled :: bool
  frequency :: int

datatype 'rep Terminal = Terminal_std "'rep list"

definition build :: "Terminal_parameters \<Rightarrow> 'rep list \<Rightarrow> error + 'rep Terminal" where
  "build this reporters =
     (if type this = ''STD'' then Inr (Terminal_std reporters)
      else Inl (cannot_allocate ''build''))"

definition Terminal_build :: "Terminal_parameters \<Rightarrow> 'rep list \<Rightarrow> error + 'rep Terminal" where
  "Terminal_build params reporters = build params reporters"

section \<open>Notions used in the statements\<close>



text \<open>
  One call of the body for each frame index of a list, in the order of the list, each
  call starting from what the previous one left; an exception ends the walk.
\<close>

fun per_frame ::
  "int list \<Rightarrow> (int \<Rightarrow> 'a \<Rightarrow> (error \<times> 'a) + 'a) \<Rightarrow> 'a \<Rightarrow> (error \<times> 'a) + 'a" where
  "per_frame [] body \<sigma> = Inr \<sigma>"
| "per_frame (f # fs) body \<sigma> =
     (case body f \<sigma> of Inl e \<Rightarrow> Inl e | Inr \<sigma>' \<Rightarrow> per_frame fs body \<sigma>')"

text \<open>
  The \<open>n\<close> elements that a pointer \<open>(X, off)\<close> gives access to, and the buffer after
  the elements \<open>ys\<close> have been written through a pointer \<open>(Y, off)\<close>.
\<close>

definition frame :: "'a ptr \<Rightarrow> int \<Rightarrow> 'a list" where
  "frame p n = take (nat n) (drop (nat (snd p)) (fst p))"

definition store :: "'a ptr \<Rightarrow> 'a list \<Rightarrow> 'a list" where
  "store p ys =
     take (nat (snd p)) (fst p) @ ys @ drop (nat (snd p) + length ys) (fst p)"

text \<open>
  A single-frame kernel that computes one output frame from the input frames by a pure
  function \<open>g\<close>, writes it through the output pointer and leaves the module unchanged.
  The numbers are the lengths of the input frames.
\<close>

definition pure_fbf2 ::
  "('a list \<Rightarrow> 'c list) \<Rightarrow> int \<Rightarrow> 's \<Rightarrow> 'a ptr \<Rightarrow> 'c ptr \<Rightarrow> ('s, 'c) result" where
  "pure_fbf2 g n1 s X1 Y = Inr (s, store Y (g (frame X1 n1)))"

definition pure_fbf3 ::
  "('a list \<Rightarrow> 'b list \<Rightarrow> 'c list) \<Rightarrow> int \<Rightarrow> int \<Rightarrow> 's \<Rightarrow> 'a ptr \<Rightarrow> 'b ptr \<Rightarrow> 'c ptr
     \<Rightarrow> ('s, 'c) result" where
  "pure_fbf3 g n1 n2 s X1 X2 Y = Inr (s, store Y (g (frame X1 n1) (frame X2 n2)))"

definition pure_fbf4 ::
  "('a list \<Rightarrow> 'b list \<Rightarrow> 'd list \<Rightarrow> 'c list) \<Rightarrow> int \<Rightarrow> int \<Rightarrow> int
     \<Rightarrow> 's \<Rightarrow> 'a ptr \<Rightarrow> 'b ptr \<Rightarrow> 'd ptr \<Rightarrow> 'c ptr \<Rightarrow> ('s, 'c) result" where
  "pure_fbf4 g n1 n2 n3 s X1 X2 X3 Y =
     Inr (s, store Y (g (frame X1 n1) (frame X2 n2) (frame X3 n3)))"





text \<open>A buffer holds \<open>n_frames\<close> frames of \<open>n\<close> elements each.\<close>

definition holds_frames :: "Modulator_i \<Rightarrow> int \<Rightarrow> 'a list \<Rightarrow> bool" where
  "holds_frames this n buf = (int (length buf) = n * n_frames this)"


text \<open>
  Sample modules for concrete instances: two frames per batch; the second one has equal
  sizes after modulation and after filtering. \<open>base_methods\<close> are the methods of a module
  that overrides nothing. The sample kernel counts its calls in the module state and
  writes nothing.
\<close>

definition sample :: Modulator_i where
  "sample = \<lparr> n_frames = 2, name = ''Modulator_i'', N = 1, N_mod = 2, N_fil = 3 \<rparr>"

definition sample_eq :: Modulator_i where
  "sample_eq = \<lparr> n_frames = 2, name = ''Modulator_i'', N = 1, N_mod = 2, N_fil = 2 \<rparr>"

definition base_methods :: "(unit, int, int, int) methods" where
  "base_methods = Modulator_i_methods Modulator_i_kernels"

definition counting_fbf :: "nat \<Rightarrow> 'a ptr \<Rightarrow> 'c ptr \<Rightarrow> (nat, 'c) result" where
  "counting_fbf s X Y = Inr (Suc s, fst Y)"

definition counting_kernels :: "(nat, int, int, int) kernels" where
  "counting_kernels =
     Modulator_i_kernels \<lparr> v_modulate_fbf := counting_fbf, v_filter_fbf := counting_fbf \<rparr>"

definition base_kernels :: "(unit, int, int, int) kernels" where
  "base_kernels = Modulator_i_kernels"

text \<open>A constructor of the base class that stores its arguments and accepts all of them.\<close>

definition Module_stores :: "int \<Rightarrow> string \<Rightarrow> error + Module" where
  "Module_stores nf nm = Inr \<lparr> n_frames = nf, name = nm \<rparr>"

section \<open>The batch loop\<close>

lemma for_frames_done: "n \<le> f \<Longrightarrow> for_frames f n body \<sigma> = Inr \<sigma>"
  by (subst for_frames.simps) simp

lemma for_frames_raise:
  "f < n \<Longrightarrow> body f \<sigma> = Inl e \<Longrightarrow> for_frames f n body \<sigma> = Inl e"
  by (subst for_frames.simps) simp

text \<open>The loop makes one call per frame index from \<open>f\<close> up to \<open>n - 1\<close>, in this order.\<close>

lemma for_frames_per_frame: "for_frames f n body \<sigma> = per_frame [f..n - 1] body \<sigma>"
proof (induction f n body \<sigma> rule: for_frames.induct)
  case (1 f n body \<sigma>)
  show ?case
  proof (cases "f < n")
    case True
    then have "[f..n - 1] = f # [f + 1..n - 1]"
      by (simp add: upto_rec1)
    with True 1 show ?thesis
      by (subst for_frames.simps) (simp split: sum.splits)
  next
    case False
    then show ?thesis
      by (subst for_frames.simps) simp
  qed
qed

text \<open>
  When every call writes a block of \<open>M\<close> elements at offset \<open>f * M\<close>, the blocks written
  so far are a prefix \<open>P\<close> of the buffer and the loop appends the remaining ones.
\<close>

lemma for_frames_store_from:
  assumes "\<forall>j. 0 \<le> j \<and> j < n \<longrightarrow> length (h j) = nat M"
    and "0 \<le> M" and "0 \<le> f"
    and "length P = nat (f * M)" and "int (length R) = (n - f) * M" and "f \<le> n"
  shows "for_frames f n (\<lambda>f (s, Y). Inr (s, store (Y, f * M) (h f))) (s, P @ R)
         = Inr (s, P @ concat (map h [f..n - 1]))"
  using assms
proof (induction "nat (n - f)" arbitrary: f P R)
  case 0
  then have "f = n" by simp
  with 0 show ?case by (simp add: for_frames_done)
next
  case (Suc d)
  then have lt: "f < n" by linarith
  have up: "[f..n - 1] = f # [f + 1..n - 1]" using lt by (simp add: upto_rec1)
  have fM: "0 \<le> f * M" using Suc.prems by simp
  have lenR: "int (length R) = M + (n - (f + 1)) * M"
    using Suc.prems by (simp add: algebra_simps)
  have nn: "0 \<le> (n - (f + 1)) * M" using lt Suc.prems by simp
  have lenR': "length R = nat M + nat ((n - (f + 1)) * M)"
    using lenR nn Suc.prems by linarith
  have hf: "length (h f) = nat M" using Suc.prems lt by simp
  have st: "store (P @ R, f * M) (h f) = (P @ h f) @ drop (nat M) R"
    using Suc.prems hf lenR' by (simp add: store_def)
  have d: "d = nat (n - (f + 1))" using Suc.hyps by linarith
  have lp: "length (P @ h f) = nat ((f + 1) * M)"
    using Suc.prems hf fM by (simp add: algebra_simps nat_add_distrib)
  have lr: "int (length (drop (nat M) R)) = (n - (f + 1)) * M"
    using lenR' nn by simp
  have ih: "for_frames (f + 1) n (\<lambda>f (s, Y). Inr (s, store (Y, f * M) (h f)))
              (s, (P @ h f) @ drop (nat M) R)
            = Inr (s, (P @ h f) @ concat (map h [f + 1..n - 1]))"
  proof (rule Suc.hyps(1))
    show "d = nat (n - (f + 1))" by (rule d)
    show "\<forall>j. 0 \<le> j \<and> j < n \<longrightarrow> length (h j) = nat M" by (rule Suc.prems(1))
    show "0 \<le> M" by (rule Suc.prems(2))
    show "0 \<le> f + 1" using Suc.prems(3) by simp
    show "length (P @ h f) = nat ((f + 1) * M)" by (rule lp)
    show "int (length (drop (nat M) R)) = (n - (f + 1)) * M" by (rule lr)
    show "f + 1 \<le> n" using lt by simp
  qed
  show ?case
    using ih by (subst for_frames.simps) (simp add: lt st up)
qed

lemma for_frames_concat:
  assumes len: "\<forall>j. 0 \<le> j \<and> j < n \<longrightarrow> length (h j) = nat M"
    and n: "0 \<le> n" and Y: "int (length Y) = M * n"
  shows "for_frames 0 n (\<lambda>f (s, Y). Inr (s, store (Y, f * M) (h f))) (s, Y)
         = Inr (s, concat (map h [0..n - 1]))"
proof (cases "n = 0")
  case True
  with Y show ?thesis by (simp add: for_frames_done)
next
  case False
  with n have pos: "0 < n" by simp
  have "0 \<le> M * n" using Y by linarith
  with pos have M: "0 \<le> M" by (simp add: zero_le_mult_iff)
  have "for_frames 0 n (\<lambda>f (s, Y). Inr (s, store (Y, f * M) (h f))) (s, [] @ Y)
        = Inr (s, [] @ concat (map h [0..n - 1]))"
    using len M n Y by (intro for_frames_store_from) (simp_all add: mult.commute)
  then show ?thesis by simp
qed

text \<open>A frame inside a correctly sized buffer has the declared number of elements.\<close>

lemma length_frame:
  assumes X: "int (length X) = M * n" and f: "0 \<le> f" "f < n"
  shows "length (frame (X, f * M) M) = nat M"
proof -
  have "0 \<le> M * n" using X by linarith
  with f have M: "0 \<le> M" by (simp add: zero_le_mult_iff)
  have "M * n = f * M + (n - f) * M" by (simp add: algebra_simps)
  moreover have "M \<le> (n - f) * M" using f M by (simp add: mult_le_cancel_right1)
  ultimately have "f * M + M \<le> int (length X)" using X by linarith
  moreover have "0 \<le> f * M" using f M by simp
  ultimately have "nat M \<le> length X - nat (f * M)" by linarith
  then show ?thesis by (simp add: frame_def)
qed

section \<open>Size checks of the entry points\<close>




lemma modulate_accepts:
  "holds_frames this (N this) Xb \<and> holds_frames this (N_mod this) Xr \<Longrightarrow>
   modulate vt this s Xb Xr = v_modulate vt this s Xb Xr"
  by (simp add: modulate_def holds_frames_def)





lemma filter_mod_accepts:
  "holds_frames this (N_mod this) Xr \<and> holds_frames this (N_fil this) Yr \<Longrightarrow>
   filter_mod vt this s Xr Yr = v_filter vt this s Xr Yr"
  by (simp add: filter_mod_def holds_frames_def)





lemma demodulate_accepts:
  "holds_frames this (N_fil this) Yq \<and> holds_frames this (N this) Zq \<Longrightarrow>
   demodulate vt this s Yq Zq = v_demodulate vt this s Yq Zq"
  by (simp add: demodulate_def holds_frames_def)





lemma demodulate_with_gains_accepts:
  "holds_frames this (N_fil this) Yq \<and> holds_frames this (N_fil this) Hr \<and> holds_frames this (N this) Zq \<Longrightarrow>
   demodulate_with_gains vt this s Yq Hr Zq = v_demodulate_with_gains vt this s Yq Hr Zq"
  by (simp add: demodulate_with_gains_def holds_frames_def)





lemma demodulate_ext_accepts:
  "holds_frames this (N_fil this) Yq \<and> holds_frames this (N this) Eq \<and> holds_frames this (N this) Zq \<Longrightarrow>
   demodulate_ext vt this s Yq Eq Zq = v_demodulate_ext vt this s Yq Eq Zq"
  by (simp add: demodulate_ext_def holds_frames_def)





lemma demodulate_with_gains_ext_accepts:
  "holds_frames this (N_fil this) Yq \<and> holds_frames this (N_fil this) Hr \<and> holds_frames this (N this) Eq \<and> holds_frames this (N this) Zq \<Longrightarrow>
   demodulate_with_gains_ext vt this s Yq Hr Eq Zq = v_demodulate_with_gains_ext vt this s Yq Hr Eq Zq"
  by (simp add: demodulate_with_gains_ext_def holds_frames_def)













section \<open>The contract of the demodulation variants\<close>





section \<open>Kernels that a module does not override\<close>

lemma p_filter_copy: "length Y1 = length Y2 \<Longrightarrow> p_filter k this s Y1 Y2 = Inr (s, Y1)"
  by (simp add: p_filter_def)

lemma same_length_iff:
  assumes "0 < n_frames this" "holds_frames this (N_mod this) Xr" "holds_frames this (N_fil this) Yr"
  shows "length Xr = length Yr \<longleftrightarrow> N_mod this = N_fil this"
proof -
  have "int (length Xr) = int (length Yr) \<longleftrightarrow> N_mod this = N_fil this"
    using assms by (simp add: holds_frames_def)
  then show ?thesis by simp
qed

lemma p_modulate_unimplemented:
  "v_modulate_fbf k = p_modulate_fbf \<Longrightarrow> 0 < n_frames this \<Longrightarrow>
   p_modulate k this s Xb Xr
   = Inl (runtime_error ''aff3ct::module::Modulator: _modulate_fbf is unimplemented.'',
           s, Xr)"
  unfolding p_modulate_def
  by (rule for_frames_raise) (simp_all add: p_modulate_fbf_def)

lemma p_filter_unimplemented:
  "v_filter_fbf k = p_filter_fbf \<Longrightarrow> 0 < n_frames this \<Longrightarrow> length Xr \<noteq> length Yr \<Longrightarrow>
   p_filter k this s Xr Yr
   = Inl (runtime_error ''aff3ct::module::Modulator: _filter_fbf is unimplemented.'',
           s, Yr)"
  unfolding p_filter_def
  by (simp, rule for_frames_raise) (simp_all add: p_filter_fbf_def)

lemma p_demodulate_unimplemented:
  "v_demodulate_fbf k = p_demodulate_fbf \<Longrightarrow> 0 < n_frames this \<Longrightarrow>
   p_demodulate k this s Yq Zq
   = Inl (runtime_error ''aff3ct::module::Modulator: _demodulate_fbf is unimplemented.'',
           s, Zq)"
  unfolding p_demodulate_def
  by (rule for_frames_raise) (simp_all add: p_demodulate_fbf_def)

lemma p_demodulate_with_gains_unimplemented:
  "v_demodulate_with_gains_fbf k = p_demodulate_with_gains_fbf \<Longrightarrow> 0 < n_frames this \<Longrightarrow>
   p_demodulate_with_gains k this s Yq Hr Zq
   = Inl (runtime_error ''aff3ct::module::Modulator: _demodulate_with_gains_fbf is unimplemented.'',
           s, Zq)"
  unfolding p_demodulate_with_gains_def
  by (rule for_frames_raise) (simp_all add: p_demodulate_with_gains_fbf_def)

lemma p_demodulate_ext_unimplemented:
  "v_demodulate_fbf_ext k = p_demodulate_fbf_ext \<Longrightarrow> 0 < n_frames this \<Longrightarrow>
   p_demodulate_ext k this s Yq Eq Zq
   = Inl (runtime_error ''aff3ct::module::Modulator: _demodulate_fbf is unimplemented.'',
           s, Zq)"
  unfolding p_demodulate_ext_def
  by (rule for_frames_raise) (simp_all add: p_demodulate_fbf_ext_def)

lemma p_demodulate_with_gains_ext_unimplemented:
  "v_demodulate_with_gains_fbf_ext k = p_demodulate_with_gains_fbf_ext \<Longrightarrow> 0 < n_frames this \<Longrightarrow>
   p_demodulate_with_gains_ext k this s Yq Hr Eq Zq
   = Inl (runtime_error ''aff3ct::module::Modulator: _demodulate_with_gains_fbf is unimplemented.'',
           s, Zq)"
  unfolding p_demodulate_with_gains_ext_def
  by (rule for_frames_raise) (simp_all add: p_demodulate_with_gains_fbf_ext_def)

text \<open>
  C2 (amended): take a module with the batch functions of \<open>Modulator_i\<close>, a batch of at
  least one frame and correctly sized buffers. For each of modulate, demodulate,
  demodulate with gains and the two variants with extrinsic information whose
  single-frame kernel the module does not override, whatever its other kernels are, the
  call throws the runtime error "unimplemented" of that kernel and leaves the module
  state and the output buffer unchanged. Filter with a kernel that is not overridden
  throws it only when the sizes after modulation and after filtering differ; when they
  are equal it returns normally with a copy of its input.
\<close>

theorem C2_unimplemented_kernels:
  "(v_modulate_fbf k = p_modulate_fbf
      \<and> 0 < n_frames this
      \<and> holds_frames this (N this) Xb
      \<and> holds_frames this (N_mod this) Xr \<longrightarrow>
    modulate (Modulator_i_methods k) this s Xb Xr
      = Inl (runtime_error ''aff3ct::module::Modulator: _modulate_fbf is unimplemented.'',
           s, Xr))
   \<and> (v_filter_fbf k = p_filter_fbf
      \<and> 0 < n_frames this
      \<and> holds_frames this (N_mod this) Xr
      \<and> holds_frames this (N_fil this) Yr \<longrightarrow>
    filter_mod (Modulator_i_methods k) this s Xr Yr
      = (if N_mod this = N_fil this then Inr (s, Xr)
         else Inl (runtime_error ''aff3ct::module::Modulator: _filter_fbf is unimplemented.'',
              s, Yr)))
   \<and> (v_demodulate_fbf k = p_demodulate_fbf
      \<and> 0 < n_frames this
      \<and> holds_frames this (N_fil this) Yq
      \<and> holds_frames this (N this) Zq \<longrightarrow>
    demodulate (Modulator_i_methods k) this s Yq Zq
      = Inl (runtime_error ''aff3ct::module::Modulator: _demodulate_fbf is unimplemented.'',
           s, Zq))
   \<and> (v_demodulate_with_gains_fbf k = p_demodulate_with_gains_fbf
      \<and> 0 < n_frames this
      \<and> holds_frames this (N_fil this) Yq
      \<and> holds_frames this (N_fil this) Hr
      \<and> holds_frames this (N this) Zq \<longrightarrow>
    demodulate_with_gains (Modulator_i_methods k) this s Yq Hr Zq
      = Inl (runtime_error ''aff3ct::module::Modulator: _demodulate_with_gains_fbf is unimplemented.'',
           s, Zq))
   \<and> (v_demodulate_fbf_ext k = p_demodulate_fbf_ext
      \<and> 0 < n_frames this
      \<and> holds_frames this (N_fil this) Yq
      \<and> holds_frames this (N this) Eq
      \<and> holds_frames this (N this) Zq \<longrightarrow>
    demodulate_ext (Modulator_i_methods k) this s Yq Eq Zq
      = Inl (runtime_error ''aff3ct::module::Modulator: _demodulate_fbf is unimplemented.'',
           s, Zq))
   \<and> (v_demodulate_with_gains_fbf_ext k = p_demodulate_with_gains_fbf_ext
      \<and> 0 < n_frames this
      \<and> holds_frames this (N_fil this) Yq
      \<and> holds_frames this (N_fil this) Hr
      \<and> holds_frames this (N this) Eq
      \<and> holds_frames this (N this) Zq \<longrightarrow>
    demodulate_with_gains_ext (Modulator_i_methods k) this s Yq Hr Eq Zq
      = Inl (runtime_error ''aff3ct::module::Modulator: _demodulate_with_gains_fbf is unimplemented.'',
           s, Zq))"
  apply (intro conjI impI)
  subgoal
  proof -
    assume h: "v_modulate_fbf k = p_modulate_fbf
      \<and> 0 < n_frames this
      \<and> holds_frames this (N this) Xb
      \<and> holds_frames this (N_mod this) Xr"
    then have ok: "holds_frames this (N this) Xb \<and> holds_frames this (N_mod this) Xr"
      by blast
    have "modulate (Modulator_i_methods k) this s Xb Xr
          = p_modulate k this s Xb Xr"
      by (simp add: modulate_accepts [OF ok] Modulator_i_methods_def)
    also have "\<dots> = Inl (runtime_error ''aff3ct::module::Modulator: _modulate_fbf is unimplemented.'',
           s, Xr)"
      using h by (intro p_modulate_unimplemented) blast+
    finally show ?thesis .
  qed
  subgoal
  proof -
    assume h: "v_filter_fbf k = p_filter_fbf
      \<and> 0 < n_frames this
      \<and> holds_frames this (N_mod this) Xr
      \<and> holds_frames this (N_fil this) Yr"
    then have ok: "holds_frames this (N_mod this) Xr \<and> holds_frames this (N_fil this) Yr"
      by blast
    have len: "length Xr = length Yr \<longleftrightarrow> N_mod this = N_fil this"
      using h by (intro same_length_iff) blast+
    have "filter_mod (Modulator_i_methods k) this s Xr Yr
          = p_filter k this s Xr Yr"
      by (simp add: filter_mod_accepts [OF ok] Modulator_i_methods_def)
    also have "\<dots> = (if N_mod this = N_fil this then Inr (s, Xr)
         else Inl (runtime_error ''aff3ct::module::Modulator: _filter_fbf is unimplemented.'',
              s, Yr))"
      using h len by (simp add: p_filter_copy p_filter_unimplemented)
    finally show ?thesis .
  qed
  subgoal
  proof -
    assume h: "v_demodulate_fbf k = p_demodulate_fbf
      \<and> 0 < n_frames this
      \<and> holds_frames this (N_fil this) Yq
      \<and> holds_frames this (N this) Zq"
    then have ok: "holds_frames this (N_fil this) Yq \<and> holds_frames this (N this) Zq"
      by blast
    have "demodulate (Modulator_i_methods k) this s Yq Zq
          = p_demodulate k this s Yq Zq"
      by (simp add: demodulate_accepts [OF ok] Modulator_i_methods_def)
    also have "\<dots> = Inl (runtime_error ''aff3ct::module::Modulator: _demodulate_fbf is unimplemented.'',
           s, Zq)"
      using h by (intro p_demodulate_unimplemented) blast+
    finally show ?thesis .
  qed
  subgoal
  proof -
    assume h: "v_demodulate_with_gains_fbf k = p_demodulate_with_gains_fbf
      \<and> 0 < n_frames this
      \<and> holds_frames this (N_fil this) Yq
      \<and> holds_frames this (N_fil this) Hr
      \<and> holds_frames this (N this) Zq"
    then have ok: "holds_frames this (N_fil this) Yq \<and> holds_frames this (N_fil this) Hr \<and> holds_frames this (N this) Zq"
      by blast
    have "demodulate_with_gains (Modulator_i_methods k) this s Yq Hr Zq
          = p_demodulate_with_gains k this s Yq Hr Zq"
      by (simp add: demodulate_with_gains_accepts [OF ok] Modulator_i_methods_def)
    also have "\<dots> = Inl (runtime_error ''aff3ct::module::Modulator: _demodulate_with_gains_fbf is unimplemented.'',
           s, Zq)"
      using h by (intro p_demodulate_with_gains_unimplemented) blast+
    finally show ?thesis .
  qed
  subgoal
  proof -
    assume h: "v_demodulate_fbf_ext k = p_demodulate_fbf_ext
      \<and> 0 < n_frames this
      \<and> holds_frames this (N_fil this) Yq
      \<and> holds_frames this (N this) Eq
      \<and> holds_frames this (N this) Zq"
    then have ok: "holds_frames this (N_fil this) Yq \<and> holds_frames this (N this) Eq \<and> holds_frames this (N this) Zq"
      by blast
    have "demodulate_ext (Modulator_i_methods k) this s Yq Eq Zq
          = p_demodulate_ext k this s Yq Eq Zq"
      by (simp add: demodulate_ext_accepts [OF ok] Modulator_i_methods_def)
    also have "\<dots> = Inl (runtime_error ''aff3ct::module::Modulator: _demodulate_fbf is unimplemented.'',
           s, Zq)"
      using h by (intro p_demodulate_ext_unimplemented) blast+
    finally show ?thesis .
  qed
  subgoal
  proof -
    assume h: "v_demodulate_with_gains_fbf_ext k = p_demodulate_with_gains_fbf_ext
      \<and> 0 < n_frames this
      \<and> holds_frames this (N_fil this) Yq
      \<and> holds_frames this (N_fil this) Hr
      \<and> holds_frames this (N this) Eq
      \<and> holds_frames this (N this) Zq"
    then have ok: "holds_frames this (N_fil this) Yq \<and> holds_frames this (N_fil this) Hr \<and> holds_frames this (N this) Eq \<and> holds_frames this (N this) Zq"
      by blast
    have "demodulate_with_gains_ext (Modulator_i_methods k) this s Yq Hr Eq Zq
          = p_demodulate_with_gains_ext k this s Yq Hr Eq Zq"
      by (simp add: demodulate_with_gains_ext_accepts [OF ok] Modulator_i_methods_def)
    also have "\<dots> = Inl (runtime_error ''aff3ct::module::Modulator: _demodulate_with_gains_fbf is unimplemented.'',
           s, Zq)"
      using h by (intro p_demodulate_with_gains_ext_unimplemented) blast+
    finally show ?thesis .
  qed
  done

theorem C2_unimplemented_kernels_witness:
  "v_modulate_fbf base_kernels = p_modulate_fbf
   \<and> v_filter_fbf base_kernels = p_filter_fbf
   \<and> v_demodulate_fbf counting_kernels = p_demodulate_fbf
   \<and> v_demodulate_with_gains_fbf counting_kernels = p_demodulate_with_gains_fbf
   \<and> v_demodulate_fbf_ext counting_kernels = p_demodulate_fbf_ext
   \<and> v_demodulate_with_gains_fbf_ext counting_kernels = p_demodulate_with_gains_fbf_ext
   \<and> v_modulate_fbf counting_kernels \<noteq> p_modulate_fbf
   \<and> 0 < n_frames sample
   \<and> holds_frames sample (N sample) [1, 0 :: int]
   \<and> holds_frames sample (N_mod sample) [4, 4, 4, 4 :: int]
   \<and> holds_frames sample (N_fil sample) [5, 5, 5, 5, 5, 5 :: int]
   \<and> modulate (Modulator_i_methods base_kernels) sample () [1, 0] [4, 4, 4, 4]
       = Inl (runtime_error ''aff3ct::module::Modulator: _modulate_fbf is unimplemented.'',
              (), [4, 4, 4, 4])
   \<and> filter_mod (Modulator_i_methods base_kernels) sample () [4, 4, 4, 4] [5, 5, 5, 5, 5, 5]
       = Inl (runtime_error ''aff3ct::module::Modulator: _filter_fbf is unimplemented.'',
              (), [5, 5, 5, 5, 5, 5])
   \<and> demodulate (Modulator_i_methods counting_kernels) sample 0 [5, 5, 5, 5, 5, 5] [1, 0]
       = Inl (runtime_error ''aff3ct::module::Modulator: _demodulate_fbf is unimplemented.'',
              0, [1, 0])
   \<and> demodulate_with_gains (Modulator_i_methods counting_kernels) sample 0
         [5, 5, 5, 5, 5, 5] [5, 5, 5, 5, 5, 5] [1, 0]
       = Inl (runtime_error
                ''aff3ct::module::Modulator: _demodulate_with_gains_fbf is unimplemented.'',
              0, [1, 0])
   \<and> demodulate_ext (Modulator_i_methods counting_kernels) sample 0
         [5, 5, 5, 5, 5, 5] [1, 0] [1, 0]
       = Inl (runtime_error ''aff3ct::module::Modulator: _demodulate_fbf is unimplemented.'',
              0, [1, 0])
   \<and> demodulate_with_gains_ext (Modulator_i_methods counting_kernels) sample 0
         [5, 5, 5, 5, 5, 5] [5, 5, 5, 5, 5, 5] [1, 0] [1, 0]
       = Inl (runtime_error
                ''aff3ct::module::Modulator: _demodulate_with_gains_fbf is unimplemented.'',
              0, [1, 0])"
proof -
  have ne: "v_modulate_fbf counting_kernels \<noteq> p_modulate_fbf"
  proof
    assume e: "v_modulate_fbf counting_kernels = p_modulate_fbf"
    have "v_modulate_fbf counting_kernels 0 ([], 0) ([], 0) = Inr (Suc 0, [])"
      by (simp add: counting_kernels_def counting_fbf_def)
    then have "(p_modulate_fbf :: nat \<Rightarrow> int ptr \<Rightarrow> int ptr \<Rightarrow> (nat, int) result)
                 0 ([], 0) ([], 0) = Inr (Suc 0, [])"
      by (simp only: e)
    then show False
      by (simp add: p_modulate_fbf_def)
  qed
  show ?thesis
    using ne
      C2_unimplemented_kernels [where this = sample and k = base_kernels and s = "()"
        and Xb = "[1, 0]" and Xr = "[4, 4, 4, 4]" and Yr = "[5, 5, 5, 5, 5, 5]"
        and Yq = "[5, 5, 5, 5, 5, 5]" and Hr = "[5, 5, 5, 5, 5, 5]"
        and Eq = "[1, 0]" and Zq = "[1, 0]"]
      C2_unimplemented_kernels [where this = sample and k = counting_kernels and s = 0
        and Xb = "[1, 0]" and Xr = "[4, 4, 4, 4]" and Yr = "[5, 5, 5, 5, 5, 5]"
        and Yq = "[5, 5, 5, 5, 5, 5]" and Hr = "[5, 5, 5, 5, 5, 5]"
        and Eq = "[1, 0]" and Zq = "[1, 0]"]
    by (simp add: holds_frames_def sample_def base_kernels_def counting_kernels_def
        Modulator_i_kernels_def)
qed

text \<open>
  C2 as stated fails for filter: with equal sizes after modulation and after filtering
  and correctly sized buffers, the call returns normally and raises nothing.
\<close>

theorem C2_filter_counterexample:
  "0 < n_frames sample_eq
   \<and> holds_frames sample_eq (N_mod sample_eq) [1, 2, 3, 4 :: int]
   \<and> holds_frames sample_eq (N_fil sample_eq) [0, 0, 0, 0 :: int]
   \<and> filter_mod base_methods sample_eq () [1, 2, 3, 4] [0, 0, 0, 0] = Inr ((), [1, 2, 3, 4])"
  by (simp add: holds_frames_def sample_eq_def base_methods_def filter_mod_def
      Modulator_i_methods_def p_filter_def int32_def)

section \<open>The fast path of filter\<close>

text \<open>
  C3: when the sizes after modulation and after filtering are equal and the buffers are
  correctly sized, filter returns with the output equal to the input and the module state
  untouched, for every per-frame kernel, so without calling it; the batch function takes
  this path whenever its two buffers have the same size.
\<close>

theorem C3_filter_copy:
  "(N_mod this = N_fil this \<and> holds_frames this (N_mod this) Xr
      \<and> holds_frames this (N_fil this) Yr \<longrightarrow>
    filter_mod (Modulator_i_methods k) this s Xr Yr = Inr (s, Xr))
   \<and> (length Y1 = length Y2 \<longrightarrow> p_filter k this s Y1 Y2 = Inr (s, Y1))"
proof (intro conjI impI)
  assume a: "N_mod this = N_fil this \<and> holds_frames this (N_mod this) Xr
      \<and> holds_frames this (N_fil this) Yr"
  then have "int (length Xr) = int (length Yr)"
    by (simp add: holds_frames_def)
  then have len: "length Xr = length Yr"
    by simp
  from a have ok: "holds_frames this (N_mod this) Xr \<and> holds_frames this (N_fil this) Yr"
    by blast
  have "filter_mod (Modulator_i_methods k) this s Xr Yr
        = v_filter (Modulator_i_methods k) this s Xr Yr"
    by (rule filter_mod_accepts [OF ok])
  also have "\<dots> = p_filter k this s Xr Yr"
    by (simp add: Modulator_i_methods_def)
  also have "\<dots> = Inr (s, Xr)"
    by (rule p_filter_copy [OF len])
  finally show "filter_mod (Modulator_i_methods k) this s Xr Yr = Inr (s, Xr)" .
next
  assume "length Y1 = length Y2"
  then show "p_filter k this s Y1 Y2 = Inr (s, Y1)"
    by (rule p_filter_copy)
qed

theorem C3_filter_copy_witness:
  "N_mod sample_eq = N_fil sample_eq
   \<and> holds_frames sample_eq (N_mod sample_eq) [1, 2, 3, 4 :: int]
   \<and> holds_frames sample_eq (N_fil sample_eq) [0, 0, 0, 0 :: int]
   \<and> filter_mod (Modulator_i_methods counting_kernels) sample_eq 0 [1, 2, 3, 4] [0, 0, 0, 0]
       = Inr (0, [1, 2, 3, 4])
   \<and> length [1, 2, 3 :: int] = length [7, 8, 9 :: int]
   \<and> p_filter counting_kernels sample 0 [1, 2, 3] [7, 8, 9] = Inr (0, [1, 2, 3])"
  using C3_filter_copy [where this = sample_eq and k = counting_kernels and s = 0
      and Xr = "[1, 2, 3, 4]" and Yr = "[0, 0, 0, 0]" and ?Y1.0 = "[]" and ?Y2.0 = "[]"]
    C3_filter_copy [where this = sample and k = counting_kernels and s = 0
      and Xr = "[]" and Yr = "[]" and ?Y1.0 = "[1, 2, 3]" and ?Y2.0 = "[7, 8, 9]"]
  by (simp add: holds_frames_def sample_eq_def)

section \<open>The walk over the frames of a batch\<close>

lemma p_modulate_walk:
  "p_modulate k this s Xb Xr
     = per_frame [0..n_frames this - 1]
         (\<lambda>f (s, Y). v_modulate_fbf k s (Xb, f * N this) (Y, f * N_mod this))
         (s, Xr)"
  by (simp add: p_modulate_def for_frames_per_frame)

lemma p_modulate_pure:
  assumes nf: "0 \<le> n_frames this"
    and Xb: "holds_frames this (N this) Xb"
    and Xr: "holds_frames this (N_mod this) Xr"
    and g: "\<forall>x. length x = nat (N this) \<longrightarrow> length (g1 x) = nat (N_mod this)"
  shows "p_modulate (k\<lparr>v_modulate_fbf := pure_fbf2 g1 (N this)\<rparr>) this s Xb Xr
         = Inr (s, concat (map (\<lambda>f. g1 (frame (Xb, f * N this) (N this))) [0..n_frames this - 1]))"
proof -
  have len: "\<forall>j. 0 \<le> j \<and> j < n_frames this \<longrightarrow>
               length (g1 (frame (Xb, j * N this) (N this))) = nat (N_mod this)"
  proof (intro allI impI)
    fix j assume j: "0 \<le> j \<and> j < n_frames this"
    have "length (frame (Xb, j * N this) (N this)) = nat (N this)"
      using Xb j by (intro length_frame [where n = "n_frames this"]) (simp_all add: holds_frames_def)
    moreover
    note g
    ultimately show "length (g1 (frame (Xb, j * N this) (N this))) = nat (N_mod this)"
      by simp
  qed
  have "for_frames 0 (n_frames this)
          (\<lambda>f (s, Y). Inr (s, store (Y, f * N_mod this) (g1 (frame (Xb, f * N this) (N this)))))
          (s, Xr)
        = Inr (s, concat (map (\<lambda>f. g1 (frame (Xb, f * N this) (N this))) [0..n_frames this - 1]))"
    using len nf Xr by (intro for_frames_concat) (simp_all add: holds_frames_def)
  then show ?thesis
    by (simp add: p_modulate_def pure_fbf2_def)
qed

lemma p_filter_walk:
  "p_filter k this s Xr Yr
     = (if length Xr = length Yr then Inr (s, Xr)
        else per_frame [0..n_frames this - 1]
         (\<lambda>f (s, Y). v_filter_fbf k s (Xr, f * N_mod this) (Y, f * N_fil this))
         (s, Yr))"
  by (simp add: p_filter_def for_frames_per_frame)

lemma p_filter_pure:
  assumes nf: "0 \<le> n_frames this"
    and Xr: "holds_frames this (N_mod this) Xr"
    and Yr: "holds_frames this (N_fil this) Yr"
    and ne: "length Xr \<noteq> length Yr"
    and g: "\<forall>x. length x = nat (N_mod this) \<longrightarrow> length (g2 x) = nat (N_fil this)"
  shows "p_filter (k\<lparr>v_filter_fbf := pure_fbf2 g2 (N_mod this)\<rparr>) this s Xr Yr
         = Inr (s, concat (map (\<lambda>f. g2 (frame (Xr, f * N_mod this) (N_mod this))) [0..n_frames this - 1]))"
proof -
  have len: "\<forall>j. 0 \<le> j \<and> j < n_frames this \<longrightarrow>
               length (g2 (frame (Xr, j * N_mod this) (N_mod this))) = nat (N_fil this)"
  proof (intro allI impI)
    fix j assume j: "0 \<le> j \<and> j < n_frames this"
    have "length (frame (Xr, j * N_mod this) (N_mod this)) = nat (N_mod this)"
      using Xr j by (intro length_frame [where n = "n_frames this"]) (simp_all add: holds_frames_def)
    moreover
    note g
    ultimately show "length (g2 (frame (Xr, j * N_mod this) (N_mod this))) = nat (N_fil this)"
      by simp
  qed
  have "for_frames 0 (n_frames this)
          (\<lambda>f (s, Y). Inr (s, store (Y, f * N_fil this) (g2 (frame (Xr, f * N_mod this) (N_mod this)))))
          (s, Yr)
        = Inr (s, concat (map (\<lambda>f. g2 (frame (Xr, f * N_mod this) (N_mod this))) [0..n_frames this - 1]))"
    using len nf Yr by (intro for_frames_concat) (simp_all add: holds_frames_def)
  then show ?thesis
    by (simp add: p_filter_def pure_fbf2_def ne)
qed

lemma p_demodulate_walk:
  "p_demodulate k this s Yq Zq
     = per_frame [0..n_frames this - 1]
         (\<lambda>f (s, Y). v_demodulate_fbf k s (Yq, f * N_fil this) (Y, f * N this))
         (s, Zq)"
  by (simp add: p_demodulate_def for_frames_per_frame)

lemma p_demodulate_pure:
  assumes nf: "0 \<le> n_frames this"
    and Yq: "holds_frames this (N_fil this) Yq"
    and Zq: "holds_frames this (N this) Zq"
    and g: "\<forall>x. length x = nat (N_fil this) \<longrightarrow> length (g3 x) = nat (N this)"
  shows "p_demodulate (k\<lparr>v_demodulate_fbf := pure_fbf2 g3 (N_fil this)\<rparr>) this s Yq Zq
         = Inr (s, concat (map (\<lambda>f. g3 (frame (Yq, f * N_fil this) (N_fil this))) [0..n_frames this - 1]))"
proof -
  have len: "\<forall>j. 0 \<le> j \<and> j < n_frames this \<longrightarrow>
               length (g3 (frame (Yq, j * N_fil this) (N_fil this))) = nat (N this)"
  proof (intro allI impI)
    fix j assume j: "0 \<le> j \<and> j < n_frames this"
    have "length (frame (Yq, j * N_fil this) (N_fil this)) = nat (N_fil this)"
      using Yq j by (intro length_frame [where n = "n_frames this"]) (simp_all add: holds_frames_def)
    moreover
    note g
    ultimately show "length (g3 (frame (Yq, j * N_fil this) (N_fil this))) = nat (N this)"
      by simp
  qed
  have "for_frames 0 (n_frames this)
          (\<lambda>f (s, Y). Inr (s, store (Y, f * N this) (g3 (frame (Yq, f * N_fil this) (N_fil this)))))
          (s, Zq)
        = Inr (s, concat (map (\<lambda>f. g3 (frame (Yq, f * N_fil this) (N_fil this))) [0..n_frames this - 1]))"
    using len nf Zq by (intro for_frames_concat) (simp_all add: holds_frames_def)
  then show ?thesis
    by (simp add: p_demodulate_def pure_fbf2_def)
qed

lemma p_demodulate_with_gains_walk:
  "p_demodulate_with_gains k this s Yq Hr Zq
     = per_frame [0..n_frames this - 1]
         (\<lambda>f (s, Y). v_demodulate_with_gains_fbf k s (Yq, f * N_fil this) (Hr, f * N_fil this) (Y, f * N this))
         (s, Zq)"
  by (simp add: p_demodulate_with_gains_def for_frames_per_frame)

lemma p_demodulate_with_gains_pure:
  assumes nf: "0 \<le> n_frames this"
    and Yq: "holds_frames this (N_fil this) Yq"
    and Hr: "holds_frames this (N_fil this) Hr"
    and Zq: "holds_frames this (N this) Zq"
    and g: "\<forall>x y. length x = nat (N_fil this) \<and> length y = nat (N_fil this) \<longrightarrow> length (g4 x y) = nat (N this)"
  shows "p_demodulate_with_gains (k\<lparr>v_demodulate_with_gains_fbf := pure_fbf3 g4 (N_fil this) (N_fil this)\<rparr>) this s Yq Hr Zq
         = Inr (s, concat (map (\<lambda>f. g4 (frame (Yq, f * N_fil this) (N_fil this)) (frame (Hr, f * N_fil this) (N_fil this))) [0..n_frames this - 1]))"
proof -
  have len: "\<forall>j. 0 \<le> j \<and> j < n_frames this \<longrightarrow>
               length (g4 (frame (Yq, j * N_fil this) (N_fil this)) (frame (Hr, j * N_fil this) (N_fil this))) = nat (N this)"
  proof (intro allI impI)
    fix j assume j: "0 \<le> j \<and> j < n_frames this"
    have "length (frame (Yq, j * N_fil this) (N_fil this)) = nat (N_fil this)"
      using Yq j by (intro length_frame [where n = "n_frames this"]) (simp_all add: holds_frames_def)
    moreover
    have "length (frame (Hr, j * N_fil this) (N_fil this)) = nat (N_fil this)"
      using Hr j by (intro length_frame [where n = "n_frames this"]) (simp_all add: holds_frames_def)
    moreover
    note g
    ultimately show "length (g4 (frame (Yq, j * N_fil this) (N_fil this)) (frame (Hr, j * N_fil this) (N_fil this))) = nat (N this)"
      by simp
  qed
  have "for_frames 0 (n_frames this)
          (\<lambda>f (s, Y). Inr (s, store (Y, f * N this) (g4 (frame (Yq, f * N_fil this) (N_fil this)) (frame (Hr, f * N_fil this) (N_fil this)))))
          (s, Zq)
        = Inr (s, concat (map (\<lambda>f. g4 (frame (Yq, f * N_fil this) (N_fil this)) (frame (Hr, f * N_fil this) (N_fil this))) [0..n_frames this - 1]))"
    using len nf Zq by (intro for_frames_concat) (simp_all add: holds_frames_def)
  then show ?thesis
    by (simp add: p_demodulate_with_gains_def pure_fbf3_def)
qed

lemma p_demodulate_ext_walk:
  "p_demodulate_ext k this s Yq Eq Zq
     = per_frame [0..n_frames this - 1]
         (\<lambda>f (s, Y). v_demodulate_fbf_ext k s (Yq, f * N_fil this) (Eq, f * N this) (Y, f * N this))
         (s, Zq)"
  by (simp add: p_demodulate_ext_def for_frames_per_frame)

lemma p_demodulate_ext_pure:
  assumes nf: "0 \<le> n_frames this"
    and Yq: "holds_frames this (N_fil this) Yq"
    and Eq: "holds_frames this (N this) Eq"
    and Zq: "holds_frames this (N this) Zq"
    and g: "\<forall>x y. length x = nat (N_fil this) \<and> length y = nat (N this) \<longrightarrow> length (g5 x y) = nat (N this)"
  shows "p_demodulate_ext (k\<lparr>v_demodulate_fbf_ext := pure_fbf3 g5 (N_fil this) (N this)\<rparr>) this s Yq Eq Zq
         = Inr (s, concat (map (\<lambda>f. g5 (frame (Yq, f * N_fil this) (N_fil this)) (frame (Eq, f * N this) (N this))) [0..n_frames this - 1]))"
proof -
  have len: "\<forall>j. 0 \<le> j \<and> j < n_frames this \<longrightarrow>
               length (g5 (frame (Yq, j * N_fil this) (N_fil this)) (frame (Eq, j * N this) (N this))) = nat (N this)"
  proof (intro allI impI)
    fix j assume j: "0 \<le> j \<and> j < n_frames this"
    have "length (frame (Yq, j * N_fil this) (N_fil this)) = nat (N_fil this)"
      using Yq j by (intro length_frame [where n = "n_frames this"]) (simp_all add: holds_frames_def)
    moreover
    have "length (frame (Eq, j * N this) (N this)) = nat (N this)"
      using Eq j by (intro length_frame [where n = "n_frames this"]) (simp_all add: holds_frames_def)
    moreover
    note g
    ultimately show "length (g5 (frame (Yq, j * N_fil this) (N_fil this)) (frame (Eq, j * N this) (N this))) = nat (N this)"
      by simp
  qed
  have "for_frames 0 (n_frames this)
          (\<lambda>f (s, Y). Inr (s, store (Y, f * N this) (g5 (frame (Yq, f * N_fil this) (N_fil this)) (frame (Eq, f * N this) (N this)))))
          (s, Zq)
        = Inr (s, concat (map (\<lambda>f. g5 (frame (Yq, f * N_fil this) (N_fil this)) (frame (Eq, f * N this) (N this))) [0..n_frames this - 1]))"
    using len nf Zq by (intro for_frames_concat) (simp_all add: holds_frames_def)
  then show ?thesis
    by (simp add: p_demodulate_ext_def pure_fbf3_def)
qed

lemma p_demodulate_with_gains_ext_walk:
  "p_demodulate_with_gains_ext k this s Yq Hr Eq Zq
     = per_frame [0..n_frames this - 1]
         (\<lambda>f (s, Y). v_demodulate_with_gains_fbf_ext k s (Yq, f * N_fil this) (Hr, f * N_fil this) (Eq, f * N this) (Y, f * N this))
         (s, Zq)"
  by (simp add: p_demodulate_with_gains_ext_def for_frames_per_frame)

lemma p_demodulate_with_gains_ext_pure:
  assumes nf: "0 \<le> n_frames this"
    and Yq: "holds_frames this (N_fil this) Yq"
    and Hr: "holds_frames this (N_fil this) Hr"
    and Eq: "holds_frames this (N this) Eq"
    and Zq: "holds_frames this (N this) Zq"
    and g: "\<forall>x y z. length x = nat (N_fil this) \<and> length y = nat (N_fil this) \<and> length z = nat (N this) \<longrightarrow> length (g6 x y z) = nat (N this)"
  shows "p_demodulate_with_gains_ext (k\<lparr>v_demodulate_with_gains_fbf_ext := pure_fbf4 g6 (N_fil this) (N_fil this) (N this)\<rparr>) this s Yq Hr Eq Zq
         = Inr (s, concat (map (\<lambda>f. g6 (frame (Yq, f * N_fil this) (N_fil this)) (frame (Hr, f * N_fil this) (N_fil this)) (frame (Eq, f * N this) (N this))) [0..n_frames this - 1]))"
proof -
  have len: "\<forall>j. 0 \<le> j \<and> j < n_frames this \<longrightarrow>
               length (g6 (frame (Yq, j * N_fil this) (N_fil this)) (frame (Hr, j * N_fil this) (N_fil this)) (frame (Eq, j * N this) (N this))) = nat (N this)"
  proof (intro allI impI)
    fix j assume j: "0 \<le> j \<and> j < n_frames this"
    have "length (frame (Yq, j * N_fil this) (N_fil this)) = nat (N_fil this)"
      using Yq j by (intro length_frame [where n = "n_frames this"]) (simp_all add: holds_frames_def)
    moreover
    have "length (frame (Hr, j * N_fil this) (N_fil this)) = nat (N_fil this)"
      using Hr j by (intro length_frame [where n = "n_frames this"]) (simp_all add: holds_frames_def)
    moreover
    have "length (frame (Eq, j * N this) (N this)) = nat (N this)"
      using Eq j by (intro length_frame [where n = "n_frames this"]) (simp_all add: holds_frames_def)
    moreover
    note g
    ultimately show "length (g6 (frame (Yq, j * N_fil this) (N_fil this)) (frame (Hr, j * N_fil this) (N_fil this)) (frame (Eq, j * N this) (N this))) = nat (N this)"
      by simp
  qed
  have "for_frames 0 (n_frames this)
          (\<lambda>f (s, Y). Inr (s, store (Y, f * N this) (g6 (frame (Yq, f * N_fil this) (N_fil this)) (frame (Hr, f * N_fil this) (N_fil this)) (frame (Eq, f * N this) (N this)))))
          (s, Zq)
        = Inr (s, concat (map (\<lambda>f. g6 (frame (Yq, f * N_fil this) (N_fil this)) (frame (Hr, f * N_fil this) (N_fil this)) (frame (Eq, f * N this) (N this))) [0..n_frames this - 1]))"
    using len nf Zq by (intro for_frames_concat) (simp_all add: holds_frames_def)
  then show ?thesis
    by (simp add: p_demodulate_with_gains_ext_def pure_fbf4_def)
qed

text \<open>
  C4 (amended): the batch functions of modulate and of the four demodulate variants, and
  the batch function of filter when its two buffers differ in size, call the single-frame
  kernel once for each frame \<open>f = 0, \<dots>, n_frames - 1\<close>, in this order, on pointers at the
  offsets \<open>f\<close> times the declared per-frame sizes, and stop at the first call that throws.
  When the kernel computes each output frame from the input frames of the same index,
  the batch result of the entry point on correctly sized buffers is the concatenation of
  the per-frame results. When the two buffers of filter have the same size, the kernel is
  not called and the output is a copy of the input.
\<close>

theorem C4_batch_walk:
  "(p_modulate k this s Xb Xr
     = per_frame [0..n_frames this - 1]
         (\<lambda>f (s, Y). v_modulate_fbf k s (Xb, f * N this) (Y, f * N_mod this))
         (s, Xr))
   \<and> (p_filter k this s Xr Yr
     = (if length Xr = length Yr then Inr (s, Xr)
        else per_frame [0..n_frames this - 1]
         (\<lambda>f (s, Y). v_filter_fbf k s (Xr, f * N_mod this) (Y, f * N_fil this))
         (s, Yr)))
   \<and> (p_demodulate k this s Yq Zq
     = per_frame [0..n_frames this - 1]
         (\<lambda>f (s, Y). v_demodulate_fbf k s (Yq, f * N_fil this) (Y, f * N this))
         (s, Zq))
   \<and> (p_demodulate_with_gains k this s Yq Hr Zq
     = per_frame [0..n_frames this - 1]
         (\<lambda>f (s, Y). v_demodulate_with_gains_fbf k s (Yq, f * N_fil this) (Hr, f * N_fil this) (Y, f * N this))
         (s, Zq))
   \<and> (p_demodulate_ext k this s Yq Eq Zq
     = per_frame [0..n_frames this - 1]
         (\<lambda>f (s, Y). v_demodulate_fbf_ext k s (Yq, f * N_fil this) (Eq, f * N this) (Y, f * N this))
         (s, Zq))
   \<and> (p_demodulate_with_gains_ext k this s Yq Hr Eq Zq
     = per_frame [0..n_frames this - 1]
         (\<lambda>f (s, Y). v_demodulate_with_gains_fbf_ext k s (Yq, f * N_fil this) (Hr, f * N_fil this) (Eq, f * N this) (Y, f * N this))
         (s, Zq))
   \<and> (0 \<le> n_frames this
      \<and> holds_frames this (N this) Xb
      \<and> holds_frames this (N_mod this) Xr
      \<and> (\<forall>x. length x = nat (N this) \<longrightarrow> length (g1 x) = nat (N_mod this)) \<longrightarrow>
    modulate (Modulator_i_methods (k\<lparr>v_modulate_fbf := pure_fbf2 g1 (N this)\<rparr>)) this s Xb Xr
      = Inr (s, concat (map (\<lambda>f. g1 (frame (Xb, f * N this) (N this))) [0..n_frames this - 1])))
   \<and> (0 \<le> n_frames this
      \<and> holds_frames this (N_mod this) Xr
      \<and> holds_frames this (N_fil this) Yr
      \<and> length Xr \<noteq> length Yr
      \<and> (\<forall>x. length x = nat (N_mod this) \<longrightarrow> length (g2 x) = nat (N_fil this)) \<longrightarrow>
    filter_mod (Modulator_i_methods (k\<lparr>v_filter_fbf := pure_fbf2 g2 (N_mod this)\<rparr>)) this s Xr Yr
      = Inr (s, concat (map (\<lambda>f. g2 (frame (Xr, f * N_mod this) (N_mod this))) [0..n_frames this - 1])))
   \<and> (0 \<le> n_frames this
      \<and> holds_frames this (N_fil this) Yq
      \<and> holds_frames this (N this) Zq
      \<and> (\<forall>x. length x = nat (N_fil this) \<longrightarrow> length (g3 x) = nat (N this)) \<longrightarrow>
    demodulate (Modulator_i_methods (k\<lparr>v_demodulate_fbf := pure_fbf2 g3 (N_fil this)\<rparr>)) this s Yq Zq
      = Inr (s, concat (map (\<lambda>f. g3 (frame (Yq, f * N_fil this) (N_fil this))) [0..n_frames this - 1])))
   \<and> (0 \<le> n_frames this
      \<and> holds_frames this (N_fil this) Yq
      \<and> holds_frames this (N_fil this) Hr
      \<and> holds_frames this (N this) Zq
      \<and> (\<forall>x y. length x = nat (N_fil this) \<and> length y = nat (N_fil this) \<longrightarrow> length (g4 x y) = nat (N this)) \<longrightarrow>
    demodulate_with_gains (Modulator_i_methods (k\<lparr>v_demodulate_with_gains_fbf := pure_fbf3 g4 (N_fil this) (N_fil this)\<rparr>)) this s Yq Hr Zq
      = Inr (s, concat (map (\<lambda>f. g4 (frame (Yq, f * N_fil this) (N_fil this)) (frame (Hr, f * N_fil this) (N_fil this))) [0..n_frames this - 1])))
   \<and> (0 \<le> n_frames this
      \<and> holds_frames this (N_fil this) Yq
      \<and> holds_frames this (N this) Eq
      \<and> holds_frames this (N this) Zq
      \<and> (\<forall>x y. length x = nat (N_fil this) \<and> length y = nat (N this) \<longrightarrow> length (g5 x y) = nat (N this)) \<longrightarrow>
    demodulate_ext (Modulator_i_methods (k\<lparr>v_demodulate_fbf_ext := pure_fbf3 g5 (N_fil this) (N this)\<rparr>)) this s Yq Eq Zq
      = Inr (s, concat (map (\<lambda>f. g5 (frame (Yq, f * N_fil this) (N_fil this)) (frame (Eq, f * N this) (N this))) [0..n_frames this - 1])))
   \<and> (0 \<le> n_frames this
      \<and> holds_frames this (N_fil this) Yq
      \<and> holds_frames this (N_fil this) Hr
      \<and> holds_frames this (N this) Eq
      \<and> holds_frames this (N this) Zq
      \<and> (\<forall>x y z. length x = nat (N_fil this) \<and> length y = nat (N_fil this) \<and> length z = nat (N this) \<longrightarrow> length (g6 x y z) = nat (N this)) \<longrightarrow>
    demodulate_with_gains_ext (Modulator_i_methods (k\<lparr>v_demodulate_with_gains_fbf_ext := pure_fbf4 g6 (N_fil this) (N_fil this) (N this)\<rparr>)) this s Yq Hr Eq Zq
      = Inr (s, concat (map (\<lambda>f. g6 (frame (Yq, f * N_fil this) (N_fil this)) (frame (Hr, f * N_fil this) (N_fil this)) (frame (Eq, f * N this) (N this))) [0..n_frames this - 1])))"
proof -
  have e1: "modulate (Modulator_i_methods (k\<lparr>v_modulate_fbf := pure_fbf2 g1 (N this)\<rparr>)) this s Xb Xr
      = Inr (s, concat (map (\<lambda>f. g1 (frame (Xb, f * N this) (N this))) [0..n_frames this - 1]))"
    if h: "0 \<le> n_frames this
      \<and> holds_frames this (N this) Xb
      \<and> holds_frames this (N_mod this) Xr
      \<and> (\<forall>x. length x = nat (N this) \<longrightarrow> length (g1 x) = nat (N_mod this))"
  proof -
    have "modulate (Modulator_i_methods (k\<lparr>v_modulate_fbf := pure_fbf2 g1 (N this)\<rparr>)) this s Xb Xr
          = p_modulate (k\<lparr>v_modulate_fbf := pure_fbf2 g1 (N this)\<rparr>) this s Xb Xr"
      using h by (simp add: modulate_accepts Modulator_i_methods_def)
    also have "\<dots> = Inr (s, concat (map (\<lambda>f. g1 (frame (Xb, f * N this) (N this))) [0..n_frames this - 1]))"
      using h by (intro p_modulate_pure) blast+
    finally show ?thesis .
  qed
  have e2: "filter_mod (Modulator_i_methods (k\<lparr>v_filter_fbf := pure_fbf2 g2 (N_mod this)\<rparr>)) this s Xr Yr
      = Inr (s, concat (map (\<lambda>f. g2 (frame (Xr, f * N_mod this) (N_mod this))) [0..n_frames this - 1]))"
    if h: "0 \<le> n_frames this
      \<and> holds_frames this (N_mod this) Xr
      \<and> holds_frames this (N_fil this) Yr
      \<and> length Xr \<noteq> length Yr
      \<and> (\<forall>x. length x = nat (N_mod this) \<longrightarrow> length (g2 x) = nat (N_fil this))"
  proof -
    have "filter_mod (Modulator_i_methods (k\<lparr>v_filter_fbf := pure_fbf2 g2 (N_mod this)\<rparr>)) this s Xr Yr
          = p_filter (k\<lparr>v_filter_fbf := pure_fbf2 g2 (N_mod this)\<rparr>) this s Xr Yr"
      using h by (simp add: filter_mod_accepts Modulator_i_methods_def)
    also have "\<dots> = Inr (s, concat (map (\<lambda>f. g2 (frame (Xr, f * N_mod this) (N_mod this))) [0..n_frames this - 1]))"
      using h by (intro p_filter_pure) blast+
    finally show ?thesis .
  qed
  have e3: "demodulate (Modulator_i_methods (k\<lparr>v_demodulate_fbf := pure_fbf2 g3 (N_fil this)\<rparr>)) this s Yq Zq
      = Inr (s, concat (map (\<lambda>f. g3 (frame (Yq, f * N_fil this) (N_fil this))) [0..n_frames this - 1]))"
    if h: "0 \<le> n_frames this
      \<and> holds_frames this (N_fil this) Yq
      \<and> holds_frames this (N this) Zq
      \<and> (\<forall>x. length x = nat (N_fil this) \<longrightarrow> length (g3 x) = nat (N this))"
  proof -
    have "demodulate (Modulator_i_methods (k\<lparr>v_demodulate_fbf := pure_fbf2 g3 (N_fil this)\<rparr>)) this s Yq Zq
          = p_demodulate (k\<lparr>v_demodulate_fbf := pure_fbf2 g3 (N_fil this)\<rparr>) this s Yq Zq"
      using h by (simp add: demodulate_accepts Modulator_i_methods_def)
    also have "\<dots> = Inr (s, concat (map (\<lambda>f. g3 (frame (Yq, f * N_fil this) (N_fil this))) [0..n_frames this - 1]))"
      using h by (intro p_demodulate_pure) blast+
    finally show ?thesis .
  qed
  have e4: "demodulate_with_gains (Modulator_i_methods (k\<lparr>v_demodulate_with_gains_fbf := pure_fbf3 g4 (N_fil this) (N_fil this)\<rparr>)) this s Yq Hr Zq
      = Inr (s, concat (map (\<lambda>f. g4 (frame (Yq, f * N_fil this) (N_fil this)) (frame (Hr, f * N_fil this) (N_fil this))) [0..n_frames this - 1]))"
    if h: "0 \<le> n_frames this
      \<and> holds_frames this (N_fil this) Yq
      \<and> holds_frames this (N_fil this) Hr
      \<and> holds_frames this (N this) Zq
      \<and> (\<forall>x y. length x = nat (N_fil this) \<and> length y = nat (N_fil this) \<longrightarrow> length (g4 x y) = nat (N this))"
  proof -
    have "demodulate_with_gains (Modulator_i_methods (k\<lparr>v_demodulate_with_gains_fbf := pure_fbf3 g4 (N_fil this) (N_fil this)\<rparr>)) this s Yq Hr Zq
          = p_demodulate_with_gains (k\<lparr>v_demodulate_with_gains_fbf := pure_fbf3 g4 (N_fil this) (N_fil this)\<rparr>) this s Yq Hr Zq"
      using h by (simp add: demodulate_with_gains_accepts Modulator_i_methods_def)
    also have "\<dots> = Inr (s, concat (map (\<lambda>f. g4 (frame (Yq, f * N_fil this) (N_fil this)) (frame (Hr, f * N_fil this) (N_fil this))) [0..n_frames this - 1]))"
      using h by (intro p_demodulate_with_gains_pure) blast+
    finally show ?thesis .
  qed
  have e5: "demodulate_ext (Modulator_i_methods (k\<lparr>v_demodulate_fbf_ext := pure_fbf3 g5 (N_fil this) (N this)\<rparr>)) this s Yq Eq Zq
      = Inr (s, concat (map (\<lambda>f. g5 (frame (Yq, f * N_fil this) (N_fil this)) (frame (Eq, f * N this) (N this))) [0..n_frames this - 1]))"
    if h: "0 \<le> n_frames this
      \<and> holds_frames this (N_fil this) Yq
      \<and> holds_frames this (N this) Eq
      \<and> holds_frames this (N this) Zq
      \<and> (\<forall>x y. length x = nat (N_fil this) \<and> length y = nat (N this) \<longrightarrow> length (g5 x y) = nat (N this))"
  proof -
    have "demodulate_ext (Modulator_i_methods (k\<lparr>v_demodulate_fbf_ext := pure_fbf3 g5 (N_fil this) (N this)\<rparr>)) this s Yq Eq Zq
          = p_demodulate_ext (k\<lparr>v_demodulate_fbf_ext := pure_fbf3 g5 (N_fil this) (N this)\<rparr>) this s Yq Eq Zq"
      using h by (simp add: demodulate_ext_accepts Modulator_i_methods_def)
    also have "\<dots> = Inr (s, concat (map (\<lambda>f. g5 (frame (Yq, f * N_fil this) (N_fil this)) (frame (Eq, f * N this) (N this))) [0..n_frames this - 1]))"
      using h by (intro p_demodulate_ext_pure) blast+
    finally show ?thesis .
  qed
  have e6: "demodulate_with_gains_ext (Modulator_i_methods (k\<lparr>v_demodulate_with_gains_fbf_ext := pure_fbf4 g6 (N_fil this) (N_fil this) (N this)\<rparr>)) this s Yq Hr Eq Zq
      = Inr (s, concat (map (\<lambda>f. g6 (frame (Yq, f * N_fil this) (N_fil this)) (frame (Hr, f * N_fil this) (N_fil this)) (frame (Eq, f * N this) (N this))) [0..n_frames this - 1]))"
    if h: "0 \<le> n_frames this
      \<and> holds_frames this (N_fil this) Yq
      \<and> holds_frames this (N_fil this) Hr
      \<and> holds_frames this (N this) Eq
      \<and> holds_frames this (N this) Zq
      \<and> (\<forall>x y z. length x = nat (N_fil this) \<and> length y = nat (N_fil this) \<and> length z = nat (N this) \<longrightarrow> length (g6 x y z) = nat (N this))"
  proof -
    have "demodulate_with_gains_ext (Modulator_i_methods (k\<lparr>v_demodulate_with_gains_fbf_ext := pure_fbf4 g6 (N_fil this) (N_fil this) (N this)\<rparr>)) this s Yq Hr Eq Zq
          = p_demodulate_with_gains_ext (k\<lparr>v_demodulate_with_gains_fbf_ext := pure_fbf4 g6 (N_fil this) (N_fil this) (N this)\<rparr>) this s Yq Hr Eq Zq"
      using h by (simp add: demodulate_with_gains_ext_accepts Modulator_i_methods_def)
    also have "\<dots> = Inr (s, concat (map (\<lambda>f. g6 (frame (Yq, f * N_fil this) (N_fil this)) (frame (Hr, f * N_fil this) (N_fil this)) (frame (Eq, f * N this) (N this))) [0..n_frames this - 1]))"
      using h by (intro p_demodulate_with_gains_ext_pure) blast+
    finally show ?thesis .
  qed
  show ?thesis
    apply (intro conjI impI)
    subgoal by (rule p_modulate_walk)
    subgoal by (rule p_filter_walk)
    subgoal by (rule p_demodulate_walk)
    subgoal by (rule p_demodulate_with_gains_walk)
    subgoal by (rule p_demodulate_ext_walk)
    subgoal by (rule p_demodulate_with_gains_ext_walk)
    subgoal by (rule e1)
    subgoal by (rule e2)
    subgoal by (rule e3)
    subgoal by (rule e4)
    subgoal by (rule e5)
    subgoal by (rule e6)
    done
qed

theorem C4_batch_walk_witness:
  "0 \<le> n_frames sample
   \<and> holds_frames sample (N sample) [1, 0 :: int]
   \<and> holds_frames sample (N_mod sample) [1, 2, 3, 4 :: int]
   \<and> holds_frames sample (N_fil sample) [1, 2, 3, 4, 5, 6 :: int]
   \<and> length [1, 2, 3, 4 :: int] \<noteq> length [1, 2, 3, 4, 5, 6 :: int]
   \<and> length [1 :: int] = nat (N sample)
   \<and> length ([1 :: int] @ [1]) = nat (N_mod sample)
   \<and> modulate (Modulator_i_methods
                  (base_kernels\<lparr>v_modulate_fbf := pure_fbf2 (\<lambda>x. x @ x) (N sample)\<rparr>))
         sample () [1, 0] [1, 2, 3, 4]
       = Inr ((), [1, 1, 0, 0])
   \<and> filter_mod (Modulator_i_methods
                    (base_kernels\<lparr>v_filter_fbf := pure_fbf2 (\<lambda>x. 0 # x) (N_mod sample)\<rparr>))
         sample () [1, 2, 3, 4] [1, 2, 3, 4, 5, 6]
       = Inr ((), [0, 1, 2, 0, 3, 4])
   \<and> demodulate (Modulator_i_methods
                    (base_kernels\<lparr>v_demodulate_fbf := pure_fbf2 (\<lambda>x. [sum_list x]) (N_fil sample)\<rparr>))
         sample () [1, 2, 3, 4, 5, 6] [1, 0]
       = Inr ((), [6, 15])
   \<and> length [1, 2, 3 :: int] = nat (N_fil sample)
   \<and> length [sum_list [1, 2, 3 :: int] + sum_list [1, 1, 1]] = nat (N sample)
   \<and> demodulate_with_gains
         (Modulator_i_methods
            (base_kernels\<lparr>v_demodulate_with_gains_fbf :=
               pure_fbf3 (\<lambda>x h. [sum_list x + sum_list h]) (N_fil sample) (N_fil sample)\<rparr>))
         sample () [1, 2, 3, 4, 5, 6] [1, 1, 1, 2, 2, 2] [1, 0]
       = Inr ((), [9, 21])
   \<and> demodulate_ext
         (Modulator_i_methods
            (base_kernels\<lparr>v_demodulate_fbf_ext :=
               pure_fbf3 (\<lambda>x e. [sum_list x + sum_list e]) (N_fil sample) (N sample)\<rparr>))
         sample () [1, 2, 3, 4, 5, 6] [10, 20] [1, 0]
       = Inr ((), [16, 35])
   \<and> demodulate_with_gains_ext
         (Modulator_i_methods
            (base_kernels\<lparr>v_demodulate_with_gains_fbf_ext :=
               pure_fbf4 (\<lambda>x h e. [sum_list x + sum_list h + sum_list e])
                 (N_fil sample) (N_fil sample) (N sample)\<rparr>))
         sample () [1, 2, 3, 4, 5, 6] [1, 1, 1, 2, 2, 2] [10, 20] [1, 0]
       = Inr ((), [19, 41])"
  using C4_batch_walk [where this = sample and k = base_kernels and s = "()"
      and Xb = "[1, 0]" and Xr = "[1, 2, 3, 4]" and Yr = "[1, 2, 3, 4, 5, 6]"
      and Yq = "[1, 2, 3, 4, 5, 6]" and Hr = "[1, 1, 1, 2, 2, 2]" and Eq = "[10, 20]"
      and Zq = "[1, 0]"
      and ?g1.0 = "\<lambda>x. x @ x" and ?g2.0 = "\<lambda>x. 0 # x" and ?g3.0 = "\<lambda>x. [sum_list x]"
      and ?g4.0 = "\<lambda>x h. [sum_list x + sum_list h]"
      and ?g5.0 = "\<lambda>x e. [sum_list x + sum_list e]"
      and ?g6.0 = "\<lambda>x h e. [sum_list x + sum_list h + sum_list e]"]
  by (simp add: holds_frames_def sample_def frame_def upto_rec1)

text \<open>
  C4 as stated fails for filter: with equal buffer sizes the kernel is called for no
  frame of a batch of two frames, where a walk over the batch calls it twice.
\<close>

theorem C4_filter_counterexample:
  "holds_frames sample_eq (N_mod sample_eq) [1, 2, 3, 4 :: int]
   \<and> holds_frames sample_eq (N_fil sample_eq) [0, 0, 0, 0 :: int]
   \<and> filter_mod (Modulator_i_methods counting_kernels) sample_eq 0 [1, 2, 3, 4] [0, 0, 0, 0]
       = Inr (0, [1, 2, 3, 4])
   \<and> per_frame [0..n_frames sample_eq - 1]
         (\<lambda>f (s, Y). v_filter_fbf counting_kernels s
                        ([1, 2, 3, 4], f * N_mod sample_eq) (Y, f * N_fil sample_eq))
         (0, [0, 0, 0, 0])
       = Inr (2, [0, 0, 0, 0])"
  by (simp add: holds_frames_def sample_eq_def filter_mod_def Modulator_i_methods_def
      p_filter_def counting_kernels_def counting_fbf_def upto_rec1 int32_def)

section \<open>Constructors\<close>

text \<open>
  C8: in the base class the size after modulation of a frame of \<open>n\<close> elements is \<open>n\<close> and
  the size after filtering is the size after modulation. Hence the constructor that takes
  only \<open>N\<close> builds a module with \<open>N = N_mod = N_fil\<close>, and the constructor that takes
  \<open>N\<close> and \<open>N_mod\<close> builds one with \<open>N_fil = N_mod\<close>, whenever the constructor of the
  base class returns.
\<close>

theorem C8_derived_sizes:
  "get_buffer_size_after_modulation n = n
   \<and> get_buffer_size_after_filtering get_buffer_size_after_modulation n
       = get_buffer_size_after_modulation n
   \<and> (Module_init nf nm = Inr b \<longrightarrow>
        Modulator_i_1 Module_init n nf nm
        = Inr \<lparr> n_frames = n_frames b, name = name b, N = n, N_mod = n, N_fil = n \<rparr>)
   \<and> (Module_init nf nm = Inr b \<longrightarrow>
        Modulator_i_2 Module_init n n_mod nf nm
        = Inr \<lparr> n_frames = n_frames b, name = name b, N = n, N_mod = n_mod, N_fil = n_mod \<rparr>)
   \<and> (Modulator_i_1 Module_init n nf nm = Inr m \<longrightarrow> N m = n \<and> N_mod m = N m \<and> N_fil m = N_mod m)
   \<and> (Modulator_i_2 Module_init n n_mod nf nm = Inr m \<longrightarrow>
        N m = n \<and> N_mod m = n_mod \<and> N_fil m = N_mod m)"
  by (auto simp: get_buffer_size_after_modulation_def get_buffer_size_after_filtering_def
      Modulator_i_1_def Modulator_i_2_def split: sum.splits)

theorem C8_derived_sizes_witness:
  "Module_stores 4 ''Modulator_i'' = Inr \<lparr> n_frames = 4, name = ''Modulator_i'' \<rparr>
   \<and> Modulator_i_1 Module_stores 8 4 ''Modulator_i''
       = Inr \<lparr> n_frames = 4, name = ''Modulator_i'', N = 8, N_mod = 8, N_fil = 8 \<rparr>
   \<and> Modulator_i_2 Module_stores 8 16 4 ''Modulator_i''
       = Inr \<lparr> n_frames = 4, name = ''Modulator_i'', N = 8, N_mod = 16, N_fil = 16 \<rparr>"
  using C8_derived_sizes [where Module_init = Module_stores and n = 8 and n_mod = 16 and nf = 4
      and nm = "''Modulator_i''" and b = "\<lparr> n_frames = 4, name = ''Modulator_i'' \<rparr>"]
  by (simp add: Module_stores_def)

text \<open>
  C9: when the constructor of the base class returns, the constructor with three sizes
  throws an invalid-argument error exactly when \<open>N \<le> 0\<close>; for a positive \<open>N\<close> it builds
  the module with whatever \<open>N_mod\<close> and \<open>N_fil\<close> it is given, non-positive ones included.
\<close>

theorem C9_constructor_validation:
  "Module_init nf nm = Inr b \<longrightarrow>
     ((\<exists>msg. Modulator_i_3 Module_init n n_mod n_fil nf nm = Inl (invalid_argument msg))
        \<longleftrightarrow> n \<le> 0)
     \<and> (0 < n \<longrightarrow>
          Modulator_i_3 Module_init n n_mod n_fil nf nm
          = Inr \<lparr> n_frames = n_frames b, name = name b,
                  N = n, N_mod = n_mod, N_fil = n_fil \<rparr>)"
  by (simp add: Modulator_i_3_def)

theorem C9_constructor_validation_witness:
  "Module_stores 1 ''Modulator_i'' = Inr \<lparr> n_frames = 1, name = ''Modulator_i'' \<rparr>
   \<and> (\<exists>msg. Modulator_i_3 Module_stores 0 2 2 1 ''Modulator_i'' = Inl (invalid_argument msg))
   \<and> Modulator_i_3 Module_stores 1 0 (- 5) 1 ''Modulator_i''
       = Inr \<lparr> n_frames = 1, name = ''Modulator_i'', N = 1, N_mod = 0, N_fil = - 5 \<rparr>"
  using C9_constructor_validation [where Module_init = Module_stores and n = 0 and n_mod = 2
      and n_fil = 2 and nf = 1 and nm = "''Modulator_i''"
      and b = "\<lparr> n_frames = 1, name = ''Modulator_i'' \<rparr>"]
    C9_constructor_validation [where Module_init = Module_stores and n = 1 and n_mod = 0
      and n_fil = "- 5" and nf = 1 and nm = "''Modulator_i''"
      and b = "\<lparr> n_frames = 1, name = ''Modulator_i'' \<rparr>"]
  by (simp add: Module_stores_def)

section \<open>Building a terminal\<close>

text \<open>
  C10: \<open>build\<close> returns a terminal exactly when the type is the string STD, and then it is
  the standard terminal on the given reporters; for every other type it throws
  \<open>cannot_allocate\<close>. It has no other outcome.
\<close>

theorem C10_terminal_build:
  "((\<exists>t. build this reporters = Inr t) \<longleftrightarrow> type this = ''STD'')
   \<and> (type this = ''STD'' \<longrightarrow> build this reporters = Inr (Terminal_std reporters))
   \<and> (type this \<noteq> ''STD'' \<longrightarrow> build this reporters = Inl (cannot_allocate ''build''))
   \<and> Terminal_build this reporters = build this reporters"
  by (simp add: build_def Terminal_build_def)

theorem C10_terminal_build_witness:
  "type \<lparr> type = ''STD'', disabled = False, frequency = 500 \<rparr> = ''STD''
   \<and> build \<lparr> type = ''STD'', disabled = False, frequency = 500 \<rparr> [1 :: nat, 2]
       = Inr (Terminal_std [1, 2])
   \<and> type \<lparr> type = ''CURSES'', disabled = False, frequency = 500 \<rparr> \<noteq> ''STD''
   \<and> build \<lparr> type = ''CURSES'', disabled = False, frequency = 500 \<rparr> [1 :: nat, 2]
       = Inl (cannot_allocate ''build'')"
  using C10_terminal_build [where this = "\<lparr> type = ''STD'', disabled = False, frequency = 500 \<rparr>"
      and reporters = "[1 :: nat, 2]"]
    C10_terminal_build [where this = "\<lparr> type = ''CURSES'', disabled = False, frequency = 500 \<rparr>"
      and reporters = "[1 :: nat, 2]"]
  by simp

end
